theory Spec2Isabelle
  imports Complex_Main "HOL-Library.Word"
begin

unbundle bit_operations_syntax

section \<open>SysTimer on AVR: register driver, interval arithmetic, interrupt dispatch\<close>

text \<open>
  A shallow embedding of \<^verbatim>\<open>src/SysTimer_AVR.cpp\<close>. The file is compiled against
  \<^verbatim>\<open>SysTimer.h\<close> and the AVR headers, neither of which is part of the sources at hand;
  what the code takes from them is made explicit below, as a build parameter or as a
  definition marked as modelled.
\<close>

subsection \<open>Build parameters\<close>

text \<open>
  The preprocessor symbols the source depends on: \<^verbatim>\<open>SYST_MAX_TIMERS\<close> (the number of
  channels, tested by \<^verbatim>\<open>#if SYST_MAX_TIMERS >= 2\<close> and \<^verbatim>\<open>#if SYST_MAX_TIMERS == 4\<close>),
  \<^verbatim>\<open>F_CPU\<close> (clock frequency in Hz) and \<^verbatim>\<open>MAX_INTERVAL\<close> (a \<^verbatim>\<open>double\<close>, in seconds).
  The arithmetic of \<^verbatim>\<open>double\<close> is that of the target: \<open>fround\<close> is the rounding that
  every floating-point operation applies to its exact result (the identity for exact
  arithmetic).
\<close>

record platform =
  SYST_MAX_TIMERS :: nat
  F_CPU :: nat
  MAX_INTERVAL :: real
  fround :: "real \<Rightarrow> real"

subsection \<open>Hardware registers\<close>

text \<open>
  The registers the macros \<^verbatim>\<open>TIMER_CONTROL(T, S)\<close> = \<^verbatim>\<open>TCCR<T><S>\<close>,
  \<^verbatim>\<open>TIMER_MASK(T)\<close> = \<^verbatim>\<open>TIMSK<T>\<close> and \<^verbatim>\<open>TIMER_CMR(T)\<close> = \<^verbatim>\<open>OCR<T>A\<close> name, indexed
  by the number \<open>T\<close> of the hardware timer unit; \<open>I_flag\<close> is the global interrupt
  enable bit of the status register, cleared by \<^verbatim>\<open>cli()\<close> and set by \<^verbatim>\<open>sei()\<close>.
\<close>

record mcu =
  TCCRA :: "nat \<Rightarrow> 8 word"
  TCCRB :: "nat \<Rightarrow> 8 word"
  TIMSK :: "nat \<Rightarrow> 8 word"
  OCRA :: "nat \<Rightarrow> 16 word"
  I_flag :: bool

definition cli :: "mcu \<Rightarrow> mcu" where
  "cli s = s\<lparr>I_flag := False\<rparr>"

definition sei :: "mcu \<Rightarrow> mcu" where
  "sei s = s\<lparr>I_flag := True\<rparr>"

text \<open>Bit numbers of the AVR headers the source comment names (iomx8.h, iomxx0_1.h).\<close>

definition OCIEA :: nat where "OCIEA = 1"
definition CS10 :: nat where "CS10 = 0"
definition CS12 :: nat where "CS12 = 2"
definition WGM12 :: nat where "WGM12 = 3"

text \<open>The macro \<^verbatim>\<open>_BV(bit)\<close> of avr-libc, \<^verbatim>\<open>1 << bit\<close>.\<close>

definition BV :: "nat \<Rightarrow> 8 word" where
  "BV b = push_bit b 1"

subsection \<open>Register driver\<close>

text \<open>
  Each operation is a \<^verbatim>\<open>switch (timerNum)\<close> without a default case; the cases 1, 2 and 3
  exist only under the preprocessor conditions written here as guards.
\<close>

definition stopTimer :: "platform \<Rightarrow> 8 word \<Rightarrow> bool \<Rightarrow> mcu \<Rightarrow> mcu" where
  "stopTimer p timerNum disableInterrupts s =
    (let s1 = (if disableInterrupts then cli s else s);
         s2 =
          (if timerNum = 0 then
             s1\<lparr>TCCRA := (TCCRA s1)(1 := 0), TCCRB := (TCCRB s1)(1 := 0)\<rparr>
           else if 2 \<le> SYST_MAX_TIMERS p \<and> timerNum = 1 then
             s1\<lparr>TCCRA := (TCCRA s1)(3 := 0), TCCRB := (TCCRB s1)(3 := 0)\<rparr>
           else if 2 \<le> SYST_MAX_TIMERS p \<and> SYST_MAX_TIMERS p = 4 \<and> timerNum = 2 then
             s1\<lparr>TCCRA := (TCCRA s1)(4 := 0), TCCRB := (TCCRB s1)(4 := 0)\<rparr>
           else if 2 \<le> SYST_MAX_TIMERS p \<and> SYST_MAX_TIMERS p = 4 \<and> timerNum = 3 then
             s1\<lparr>TCCRA := (TCCRA s1)(5 := 0), TCCRB := (TCCRB s1)(5 := 0)\<rparr>
           else s1)
     in if disableInterrupts then sei s2 else s2)"

definition initTimer :: "platform \<Rightarrow> 8 word \<Rightarrow> mcu \<Rightarrow> mcu" where
  "initTimer p timerNum s =
    (let s1 = cli s;
         s2 = stopTimer p timerNum False s1;
         s3 =
          (if timerNum = 0 then
             s2\<lparr>TIMSK := (TIMSK s2)(1 := TIMSK s2 1 OR BV OCIEA)\<rparr>
           else if 2 \<le> SYST_MAX_TIMERS p \<and> timerNum = 1 then
             s2\<lparr>TIMSK := (TIMSK s2)(3 := TIMSK s2 3 OR BV OCIEA)\<rparr>
           else if 2 \<le> SYST_MAX_TIMERS p \<and> SYST_MAX_TIMERS p = 4 \<and> timerNum = 2 then
             s2\<lparr>TIMSK := (TIMSK s2)(4 := TIMSK s2 4 OR BV OCIEA)\<rparr>
           else if 2 \<le> SYST_MAX_TIMERS p \<and> SYST_MAX_TIMERS p = 4 \<and> timerNum = 3 then
             s2\<lparr>TIMSK := (TIMSK s2)(5 := TIMSK s2 5 OR BV OCIEA)\<rparr>
           else s2)
     in sei s3)"

definition startTimer :: "platform \<Rightarrow> 8 word \<Rightarrow> mcu \<Rightarrow> mcu" where
  "startTimer p timerNum s =
    (let s1 = cli s;
         bits = BV CS10 OR BV CS12 OR BV WGM12;
         s2 =
          (if timerNum = 0 then
             s1\<lparr>TCCRB := (TCCRB s1)(1 := TCCRB s1 1 OR bits)\<rparr>
           else if 2 \<le> SYST_MAX_TIMERS p \<and> timerNum = 1 then
             s1\<lparr>TCCRB := (TCCRB s1)(3 := TCCRB s1 3 OR bits)\<rparr>
           else if 2 \<le> SYST_MAX_TIMERS p \<and> SYST_MAX_TIMERS p = 4 \<and> timerNum = 2 then
             s1\<lparr>TCCRB := (TCCRB s1)(4 := TCCRB s1 4 OR bits)\<rparr>
           else if 2 \<le> SYST_MAX_TIMERS p \<and> SYST_MAX_TIMERS p = 4 \<and> timerNum = 3 then
             s1\<lparr>TCCRB := (TCCRB s1)(5 := TCCRB s1 5 OR bits)\<rparr>
           else s1)
     in sei s2)"

subsection \<open>Computing the interval\<close>

text \<open>
  What can go wrong without the program noticing: converting a \<^verbatim>\<open>double\<close> whose
  truncated value does not fit the destination type, reading a field through a null
  object pointer, calling through a null function pointer. C++ leaves all three
  undefined; the model stops with a fault.
\<close>

datatype fault = ConversionOutOfRange | NullObject | NullCallback

text \<open>
  \<^verbatim>\<open>static_cast<uint16_t>(x)\<close> for a \<^verbatim>\<open>double\<close> x truncates towards zero, and is defined
  only when the truncated value is one of 0 .. 65535.
\<close>

definition to_uint16 :: "real \<Rightarrow> fault + 16 word" where
  "to_uint16 x =
    (if - 1 < x \<and> x < 65536
     then Inr (word_of_int (if x < 0 then \<lceil>x\<rceil> else \<lfloor>x\<rfloor>))
     else Inl ConversionOutOfRange)"

text \<open>The operations on \<^verbatim>\<open>double\<close>: the exact result, rounded by the target.\<close>

definition fmul :: "platform \<Rightarrow> real \<Rightarrow> real \<Rightarrow> real" where
  "fmul p a b = fround p (a * b)"

definition fdiv :: "platform \<Rightarrow> real \<Rightarrow> real \<Rightarrow> real" where
  "fdiv p a b = fround p (a / b)"

definition fsub :: "platform \<Rightarrow> real \<Rightarrow> real \<Rightarrow> real" where
  "fsub p a b = fround p (a - b)"

text \<open>
  Arduino's macro
  \<^verbatim>\<open>constrain(amt,low,high) ((amt)<(low)?(low):((amt)>(high)?(high):(amt)))\<close>,
  here on \<^verbatim>\<open>uint16_t\<close> (the literal 1 is converted to unsigned).
\<close>

definition constrain :: "16 word \<Rightarrow> 16 word \<Rightarrow> 16 word \<Rightarrow> 16 word" where
  "constrain amt low high = (if amt < low then low else if amt > high then high else amt)"

text \<open>The local \<^verbatim>\<open>maximum\<close> of setTimerInterval.\<close>

definition interval_maximum :: "platform \<Rightarrow> fault + 16 word" where
  "interval_maximum p = to_uint16 (fmul p (MAX_INTERVAL p) 1000)"

text \<open>
  The locals \<^verbatim>\<open>elapsed\<close>, \<^verbatim>\<open>temp\<close> and \<^verbatim>\<open>counter\<close> of setTimerInterval, from
  \<^verbatim>\<open>interval\<close>. The conversion of \<^verbatim>\<open>interval\<close> to \<^verbatim>\<open>double\<close> is exact; \<^verbatim>\<open>F_CPU\<close> is an
  integer constant that the division converts.
\<close>

definition interval_temp :: "platform \<Rightarrow> 16 word \<Rightarrow> real" where
  "interval_temp p interval =
    (let elapsed = fdiv p (real (unat interval)) 1000
     in fsub p (fdiv p elapsed (fdiv p 1024 (fround p (real (F_CPU p))))) 1)"

definition interval_counter :: "platform \<Rightarrow> 16 word \<Rightarrow> fault + 16 word" where
  "interval_counter p interval = to_uint16 (interval_temp p interval)"

definition setTimerInterval ::
    "platform \<Rightarrow> 8 word \<Rightarrow> 16 word \<Rightarrow> mcu \<Rightarrow> fault + (16 word \<times> mcu)" where
  "setTimerInterval p timerNum msec s =
    (let s1 = cli s in
     case interval_maximum p of
       Inl e \<Rightarrow> Inl e
     | Inr maximum \<Rightarrow>
        (let interval = constrain msec 1 maximum in
         case interval_counter p interval of
           Inl e \<Rightarrow> Inl e
         | Inr counter \<Rightarrow>
            (let s2 =
              (if timerNum = 0 then
                 s1\<lparr>OCRA := (OCRA s1)(1 := counter)\<rparr>
               else if 2 \<le> SYST_MAX_TIMERS p \<and> timerNum = 1 then
                 s1\<lparr>OCRA := (OCRA s1)(3 := counter)\<rparr>
               else if 2 \<le> SYST_MAX_TIMERS p \<and> SYST_MAX_TIMERS p = 4 \<and> timerNum = 2 then
                 s1\<lparr>OCRA := (OCRA s1)(4 := counter)\<rparr>
               else if 2 \<le> SYST_MAX_TIMERS p \<and> SYST_MAX_TIMERS p = 4 \<and> timerNum = 3 then
                 s1\<lparr>OCRA := (OCRA s1)(5 := counter)\<rparr>
               else s1)
             in Inr (interval, sei s2))))"

text \<open>
  The build of the source comment: a 16 MHz clock, for which it gives the maximum period
  as \<^verbatim>\<open>(6.4 x 10^-5) * 65535 = 4.19424 sec\<close>; \<open>n\<close> channels, arithmetic \<open>r\<close>.
\<close>

definition avr16 :: "nat \<Rightarrow> (real \<Rightarrow> real) \<Rightarrow> platform" where
  "avr16 n r = \<lparr>SYST_MAX_TIMERS = n, F_CPU = 16000000, MAX_INTERVAL = 4.19424, fround = r\<rparr>"

text \<open>A state to run examples from: all registers zero, interrupts off.\<close>

definition mcu0 :: mcu where
  "mcu0 = \<lparr>TCCRA = (\<lambda>_. 0), TCCRB = (\<lambda>_. 0), TIMSK = (\<lambda>_. 0), OCRA = (\<lambda>_. 0),
           I_flag = False\<rparr>"

subsection \<open>Timer objects, dispatch table and interrupt shim\<close>

text \<open>
  Objects live in a store, addressed by number; an \<^verbatim>\<open>AVRTimer*\<close> is \<open>None\<close> when null.
  A callback is the address of a function of the user's, its argument a \<^verbatim>\<open>void*\<close>.
\<close>

type_synonym addr = nat
type_synonym cbfun = nat
type_synonym cbarg = nat

text \<open>
  Modelled from the spec: the class \<^verbatim>\<open>AVRTimer\<close> is declared in \<^verbatim>\<open>SysTimer.h\<close>, which is
  missing. The source reads its members \<^verbatim>\<open>_repeating\<close>, \<^verbatim>\<open>_oneshot\<close>, \<^verbatim>\<open>_callback\<close> and
  \<^verbatim>\<open>_callbackArg\<close>; the spec gives a Timer Object the fields channel id, callback,
  callback argument, the mode flags repeating and one-shot, and a boolean armed state.
\<close>

record AVRTimer =
  channel :: "8 word"
  callback :: "cbfun option"
  callbackArg :: cbarg
  repeating :: bool
  oneshot :: bool
  armed :: bool

text \<open>
  The whole system: the registers, the table \<^verbatim>\<open>_AVRTimerTable\<close> (an array of
  \<^verbatim>\<open>SYST_MAX_TIMERS\<close> pointers, all null at startup) and the object store.
\<close>

record system =
  hw :: mcu
  AVRTimerTable :: "nat \<Rightarrow> addr option"
  objects :: "addr \<Rightarrow> AVRTimer"

text \<open>
  Modelled from the spec: the method \<^verbatim>\<open>AVRTimer::disarm()\<close>, which the handler calls and
  \<^verbatim>\<open>SysTimer.h\<close> defines. In the spec's words it "calls Register Driver stop (with
  interrupt disable) and clears the Dispatch Table entry for its channel", and takes the
  object from Armed to Disarmed.
\<close>

definition disarm :: "platform \<Rightarrow> addr \<Rightarrow> system \<Rightarrow> system" where
  "disarm p that w =
    (let t = objects w that in
     w\<lparr>hw := stopTimer p (channel t) True (hw w),
       AVRTimerTable := (AVRTimerTable w)(unat (channel t) := None),
       objects := (objects w)(that := t\<lparr>armed := False\<rparr>)\<rparr>)"

text \<open>
  \<^verbatim>\<open>_AVRCommonHandler(AVRTimer* that)\<close>. The user's code is not part of the program: \<open>run\<close> gives,
  for each callback function and argument, what a call of it does to the system. The
  handler returns the calls it made together with the new system, or the fault it ran
  into. Its first statement reads \<^verbatim>\<open>that->_repeating\<close>; the call goes through
  \<^verbatim>\<open>that->_callback\<close>; the second \<^verbatim>\<open>if\<close> reads \<^verbatim>\<open>that->_oneshot\<close> again, after the call.
\<close>

definition AVRCommonHandler ::
    "platform \<Rightarrow> (cbfun \<Rightarrow> cbarg \<Rightarrow> system \<Rightarrow> system) \<Rightarrow> addr option \<Rightarrow> system
      \<Rightarrow> fault + ((cbfun \<times> cbarg) list \<times> system)" where
  "AVRCommonHandler p run that w =
    (case that of
       None \<Rightarrow> Inl NullObject
     | Some a \<Rightarrow>
        (case (if repeating (objects w a) \<or> oneshot (objects w a) then
                 (case callback (objects w a) of
                    None \<Rightarrow> Inl NullCallback
                  | Some f \<Rightarrow>
                      Inr ([(f, callbackArg (objects w a))],
                           run f (callbackArg (objects w a)) w))
               else Inr ([], w)) of
           Inl e \<Rightarrow> Inl e
         | Inr (calls, w1) \<Rightarrow>
            (if oneshot (objects w1 a) then
               Inr (calls,
                    disarm p a
                      (w1\<lparr>objects := (objects w1)(a := (objects w1 a)\<lparr>oneshot := False\<rparr>)\<rparr>))
             else Inr (calls, w1))))"

text \<open>
  The interrupt service routines: each passes its entry of the table to the common
  handler. The routines for timers 3, 4 and 5 are compiled under the same conditions as
  the cases 1, 2 and 3 of the driver.
\<close>

datatype vector = TIMER1_COMPA_vect | TIMER3_COMPA_vect | TIMER4_COMPA_vect | TIMER5_COMPA_vect

fun table_index :: "vector \<Rightarrow> nat" where
  "table_index TIMER1_COMPA_vect = 0"
| "table_index TIMER3_COMPA_vect = 1"
| "table_index TIMER4_COMPA_vect = 2"
| "table_index TIMER5_COMPA_vect = 3"

definition ISR ::
    "platform \<Rightarrow> (cbfun \<Rightarrow> cbarg \<Rightarrow> system \<Rightarrow> system) \<Rightarrow> vector \<Rightarrow> system
      \<Rightarrow> fault + ((cbfun \<times> cbarg) list \<times> system)" where
  "ISR p run v w = AVRCommonHandler p run (AVRTimerTable w (table_index v)) w"

subsection \<open>Notions the properties are stated with\<close>

text \<open>The hardware timer unit that the case labels of the driver give to a channel.\<close>

definition hw_timer :: "8 word \<Rightarrow> nat option" where
  "hw_timer c =
    (if c = 0 then Some 1 else if c = 1 then Some 3 else if c = 2 then Some 4
     else if c = 3 then Some 5 else None)"

text \<open>
  A floating-point arithmetic is accurate when, on the magnitudes this program meets,
  each operation is off by at most one part in \<open>2^23\<close>. Rounding to nearest in IEEE
  single and double precision both are, and so is exact arithmetic.
\<close>

definition accurate :: "(real \<Rightarrow> real) \<Rightarrow> bool" where
  "accurate r \<longleftrightarrow> (\<forall>x. 1 / 2 ^ 24 \<le> x \<and> x \<le> 2 ^ 24 \<longrightarrow> \<bar>r x - x\<bar> \<le> x / 2 ^ 23)"

definition exact :: "real \<Rightarrow> real" where
  "exact x = x"

text \<open>An arithmetic that is accurate and not exact: every result comes out a little low.\<close>

definition biased :: "real \<Rightarrow> real" where
  "biased x = x * (1 - 1 / 2 ^ 24)"

text \<open>
  IEEE 754 single precision, which is what AVR-GCC gives a \<^verbatim>\<open>double\<close>: 24 significant
  bits, rounding to nearest, ties to even. A positive number is doubled or halved until
  it lies between \<open>2^23\<close> and \<open>2^24\<close>, rounded to a whole number there, and scaled
  back. The exponent range is not modelled: no overflow, no subnormal numbers.
\<close>

definition round_even :: "real \<Rightarrow> int" where
  "round_even x =
    (let f = \<lfloor>x\<rfloor>; d = x - of_int f
     in if d < 1 / 2 then f else if 1 / 2 < d then f + 1 else if even f then f else f + 1)"

fun scale_round :: "nat \<Rightarrow> real \<Rightarrow> real" where
  "scale_round 0 x = x"
| "scale_round (Suc n) x =
    (if 2 ^ 24 \<le> x then 2 * scale_round n (x / 2)
     else if x < 2 ^ 23 then scale_round n (2 * x) / 2
     else of_int (round_even x))"

definition single :: "real \<Rightarrow> real" where
  "single x =
    (if 0 < x then scale_round 200 x else if x < 0 then - scale_round 200 (- x) else 0)"

text \<open>
  The comparator value in the words of the specification: round-down of
  (period in seconds / tick period in seconds) - 1, the tick period being
  prescaler / clock frequency, with the prescaler 1024 and the clock \<^verbatim>\<open>F_CPU\<close>.
\<close>

definition spec_comparator :: "platform \<Rightarrow> 16 word \<Rightarrow> int" where
  "spec_comparator p interval =
    \<lfloor>(real (unat interval) / 1000) / (1024 / real (F_CPU p)) - 1\<rfloor>"

text \<open>The control, mask and compare registers of one timer unit, and of all of them.\<close>

definition timer_regs :: "mcu \<Rightarrow> nat \<Rightarrow> 8 word \<times> 8 word \<times> 8 word \<times> 16 word" where
  "timer_regs s T = (TCCRA s T, TCCRB s T, TIMSK s T, OCRA s T)"

definition all_regs ::
    "mcu \<Rightarrow> (nat \<Rightarrow> 8 word) \<times> (nat \<Rightarrow> 8 word) \<times> (nat \<Rightarrow> 8 word) \<times> (nat \<Rightarrow> 16 word)" where
  "all_regs s = (TCCRA s, TCCRB s, TIMSK s, OCRA s)"

subsection \<open>Examples to evaluate\<close>

text \<open>User code: a callback that changes nothing.\<close>

definition run_skip :: "cbfun \<Rightarrow> cbarg \<Rightarrow> system \<Rightarrow> system" where
  "run_skip f arg w = w"

text \<open>A timer object on channel 0 with the given mode flags and callback.\<close>

definition example_timer :: "bool \<Rightarrow> bool \<Rightarrow> cbfun option \<Rightarrow> AVRTimer" where
  "example_timer rep one cb =
    \<lparr>channel = 0, callback = cb, callbackArg = 5, repeating = rep, oneshot = one,
     armed = True\<rparr>"

text \<open>
  A system whose store holds the object \<open>t\<close> (at every address) and whose table has
  \<open>entry\<close> for channel 0 and null elsewhere; timer 1 is counting.
\<close>

definition example_system :: "addr option \<Rightarrow> AVRTimer \<Rightarrow> system" where
  "example_system entry t =
    \<lparr>hw = startTimer (avr16 1 exact) 0 mcu0,
     AVRTimerTable = (\<lambda>_. None)(0 := entry),
     objects = (\<lambda>_. t)\<rparr>"

section \<open>Properties of the register driver\<close>

text \<open>
  C7: stopTimer is idempotent. For every channel and either value of the flag, a second
  call of stopTimer leaves exactly the state the first call left: registers and
  interrupt flag.
\<close>

theorem stopTimer_idempotent:
  "stopTimer p c d (stopTimer p c d s) = stopTimer p c d s"
  by (simp add: stopTimer_def cli_def sei_def Let_def)

subsection \<open>Frame\<close>

lemma stopTimer_frame:
  "hw_timer c \<noteq> Some T \<Longrightarrow> timer_regs (stopTimer p c d s) T = timer_regs s T"
  by (simp add: stopTimer_def hw_timer_def timer_regs_def cli_def sei_def Let_def
      split: if_splits)

lemma initTimer_frame:
  "hw_timer c \<noteq> Some T \<Longrightarrow> timer_regs (initTimer p c s) T = timer_regs s T"
  by (simp add: initTimer_def stopTimer_def hw_timer_def timer_regs_def cli_def sei_def Let_def
      split: if_splits)

lemma startTimer_frame:
  "hw_timer c \<noteq> Some T \<Longrightarrow> timer_regs (startTimer p c s) T = timer_regs s T"
  by (simp add: startTimer_def hw_timer_def timer_regs_def cli_def sei_def Let_def
      split: if_splits)

lemma setTimerInterval_frame:
  "hw_timer c \<noteq> Some T \<Longrightarrow> setTimerInterval p c msec s = Inr (r, s') \<Longrightarrow>
     timer_regs s' T = timer_regs s T"
  by (auto simp add: setTimerInterval_def hw_timer_def timer_regs_def cli_def sei_def Let_def
      split: if_splits sum.splits)

lemma hw_timer_inj: "hw_timer c' = Some T \<Longrightarrow> c' \<noteq> c \<Longrightarrow> hw_timer c \<noteq> Some T"
  by (auto simp add: hw_timer_def split: if_splits)

text \<open>
  C8: an operation on channel \<open>c\<close> leaves the control, mask and compare registers of
  every other channel \<open>c'\<close> as they were. \<open>T\<close> is the timer unit of \<open>c'\<close>; for
  setTimerInterval the state meant is the one it returns.
\<close>

theorem driver_frame:
  assumes "c' \<noteq> c" and "hw_timer c' = Some T"
  shows "timer_regs (stopTimer p c d s) T = timer_regs s T \<and>
         timer_regs (initTimer p c s) T = timer_regs s T \<and>
         timer_regs (startTimer p c s) T = timer_regs s T \<and>
         (\<forall>r s'. setTimerInterval p c msec s = Inr (r, s') \<longrightarrow>
                  timer_regs s' T = timer_regs s T)"
  using hw_timer_inj [OF assms(2) assms(1)]
  by (simp add: stopTimer_frame initTimer_frame startTimer_frame setTimerInterval_frame)

theorem driver_frame_witness:
  "(1 :: 8 word) \<noteq> 0 \<and> hw_timer 1 = Some 3 \<and>
   timer_regs (stopTimer (avr16 2 exact) 0 True mcu0) 3 = timer_regs mcu0 3 \<and>
   timer_regs (initTimer (avr16 2 exact) 0 mcu0) 3 = timer_regs mcu0 3 \<and>
   timer_regs (startTimer (avr16 2 exact) 0 mcu0) 3 = timer_regs mcu0 3 \<and>
   setTimerInterval (avr16 2 exact) 0 5000 mcu0 =
     Inr (4194, sei (mcu0\<lparr>OCRA := (OCRA mcu0)(1 := 65530)\<rparr>)) \<and>
   timer_regs (sei (mcu0\<lparr>OCRA := (OCRA mcu0)(1 := 65530)\<rparr>)) 3 = timer_regs mcu0 3"
  using driver_frame [of 1 0 3 "avr16 2 exact" True mcu0 5000]
  by (simp add: hw_timer_def setTimerInterval_def interval_maximum_def interval_counter_def
      interval_temp_def avr16_def fdiv_def fsub_def fmul_def to_uint16_def constrain_def
      cli_def sei_def mcu0_def exact_def)

subsection \<open>Channels out of range\<close>

lemma out_of_range_stopTimer:
  "1 \<le> SYST_MAX_TIMERS p \<Longrightarrow> SYST_MAX_TIMERS p \<le> unat timerNum \<Longrightarrow>
     stopTimer p timerNum d s = (if d then sei (cli s) else s)"
  by (auto simp add: stopTimer_def Let_def)

lemma out_of_range_initTimer:
  "1 \<le> SYST_MAX_TIMERS p \<Longrightarrow> SYST_MAX_TIMERS p \<le> unat timerNum \<Longrightarrow>
     initTimer p timerNum s = sei (cli s)"
  by (auto simp add: initTimer_def out_of_range_stopTimer Let_def)

lemma out_of_range_startTimer:
  "1 \<le> SYST_MAX_TIMERS p \<Longrightarrow> SYST_MAX_TIMERS p \<le> unat timerNum \<Longrightarrow>
     startTimer p timerNum s = sei (cli s)"
  by (auto simp add: startTimer_def Let_def)

lemma out_of_range_setTimerInterval:
  "1 \<le> SYST_MAX_TIMERS p \<Longrightarrow> SYST_MAX_TIMERS p \<le> unat timerNum \<Longrightarrow>
     interval_maximum p = Inr maximum \<Longrightarrow>
     interval_counter p (constrain msec 1 maximum) = Inr counter \<Longrightarrow>
     setTimerInterval p timerNum msec s = Inr (constrain msec 1 maximum, sei (cli s))"
  by (auto simp add: setTimerInterval_def Let_def)

text \<open>
  C9: with at least one channel configured, a channel number at or beyond
  \<^verbatim>\<open>SYST_MAX_TIMERS\<close> matches no case label: stopTimer, initTimer and startTimer write no
  timer register, and setTimerInterval, where its conversions are defined, writes none
  either and returns the clamped interval all the same.
\<close>

theorem out_of_range_channel:
  assumes "1 \<le> SYST_MAX_TIMERS p" and "SYST_MAX_TIMERS p \<le> unat timerNum"
  shows "all_regs (stopTimer p timerNum d s) = all_regs s \<and>
         all_regs (initTimer p timerNum s) = all_regs s \<and>
         all_regs (startTimer p timerNum s) = all_regs s \<and>
         (\<forall>maximum counter.
            interval_maximum p = Inr maximum \<and>
            interval_counter p (constrain msec 1 maximum) = Inr counter \<longrightarrow>
            (\<exists>s'. setTimerInterval p timerNum msec s = Inr (constrain msec 1 maximum, s') \<and>
                  all_regs s' = all_regs s))"
  using assms
  by (simp add: out_of_range_stopTimer out_of_range_initTimer out_of_range_startTimer
      out_of_range_setTimerInterval all_regs_def cli_def sei_def)

theorem out_of_range_channel_witness:
  "1 \<le> SYST_MAX_TIMERS (avr16 2 exact) \<and>
   SYST_MAX_TIMERS (avr16 2 exact) \<le> unat (2 :: 8 word) \<and>
   all_regs (stopTimer (avr16 2 exact) 2 True mcu0) = all_regs mcu0 \<and>
   all_regs (initTimer (avr16 2 exact) 2 mcu0) = all_regs mcu0 \<and>
   all_regs (startTimer (avr16 2 exact) 2 mcu0) = all_regs mcu0 \<and>
   interval_maximum (avr16 2 exact) = Inr 4194 \<and>
   interval_counter (avr16 2 exact) (constrain 5000 1 4194) = Inr 65530 \<and>
   setTimerInterval (avr16 2 exact) 2 5000 mcu0 = Inr (4194, sei mcu0) \<and>
   all_regs (sei mcu0) = all_regs mcu0"
  using out_of_range_channel [of "avr16 2 exact" 2 True mcu0 5000]
  by (simp add: setTimerInterval_def interval_maximum_def interval_counter_def
      interval_temp_def avr16_def fdiv_def fsub_def fmul_def to_uint16_def constrain_def
      all_regs_def cli_def sei_def mcu0_def exact_def)

subsection \<open>Global interrupt flag\<close>

text \<open>
  C10: initTimer, startTimer, stopTimer with disableInterrupts set, and setTimerInterval
  whenever it returns, leave the global interrupt flag set, whatever it was on entry.
\<close>

theorem driver_enables_interrupts:
  "I_flag (initTimer p c s) \<and> I_flag (startTimer p c s) \<and> I_flag (stopTimer p c True s) \<and>
   (\<forall>r s'. setTimerInterval p c msec s = Inr (r, s') \<longrightarrow> I_flag s')"
  by (auto simp add: initTimer_def startTimer_def stopTimer_def setTimerInterval_def
      cli_def sei_def Let_def split: sum.splits)

theorem driver_enables_interrupts_witness:
  "\<not> I_flag mcu0 \<and>
   I_flag (initTimer (avr16 2 exact) 0 mcu0) \<and>
   I_flag (startTimer (avr16 2 exact) 0 mcu0) \<and>
   I_flag (stopTimer (avr16 2 exact) 0 True mcu0) \<and>
   setTimerInterval (avr16 2 exact) 0 1000 mcu0 =
     Inr (1000, sei (mcu0\<lparr>OCRA := (OCRA mcu0)(1 := 15624)\<rparr>)) \<and>
   I_flag (sei (mcu0\<lparr>OCRA := (OCRA mcu0)(1 := 15624)\<rparr>))"
  using driver_enables_interrupts [of "avr16 2 exact" 0 mcu0 1000]
  by (simp add: setTimerInterval_def interval_maximum_def interval_counter_def
      interval_temp_def avr16_def fdiv_def fsub_def fmul_def to_uint16_def constrain_def
      cli_def sei_def mcu0_def exact_def)

section \<open>Interval arithmetic\<close>

subsection \<open>Rounding errors, bounded\<close>

lemma accurate_bounds:
  assumes "accurate r" and "1 / 2 ^ 24 \<le> a" and "b \<le> 2 ^ 24" and "a \<le> x" and "x \<le> b"
  shows "a * (1 - 1 / 2 ^ 23) \<le> r x \<and> r x \<le> b * (1 + 1 / 2 ^ 23)"
proof -
  have "1 / 2 ^ 24 \<le> x \<and> x \<le> 2 ^ 24" using assms(2-5) by linarith
  with assms(1) have "\<bar>r x - x\<bar> \<le> x / 2 ^ 23" unfolding accurate_def by blast
  then have "x - r x \<le> x / 2 ^ 23" and "r x - x \<le> x / 2 ^ 23"
    by linarith+
  then have lo: "x * (1 - 1 / 2 ^ 23) \<le> r x" and hi: "r x \<le> x * (1 + 1 / 2 ^ 23)"
    by (simp_all add: algebra_simps)
  have "a * (1 - 1 / 2 ^ 23) \<le> x * (1 - 1 / 2 ^ 23)"
    using assms(4) by (intro mult_right_mono) simp_all
  moreover have "x * (1 + 1 / 2 ^ 23) \<le> b * (1 + 1 / 2 ^ 23)"
    using assms(5) by (intro mult_right_mono) simp_all
  ultimately show ?thesis using lo hi by linarith
qed

lemma accurate_exact: "accurate exact"
  by (simp add: accurate_def exact_def)

lemma accurate_biased: "accurate biased"
  by (simp add: accurate_def biased_def algebra_simps abs_if)

lemma quotient_bounds:
  fixes x y :: real
  assumes "a \<le> x" "x \<le> b" "0 < c" "c \<le> y" "y \<le> d" "0 \<le> a"
  shows "a / d \<le> x / y \<and> x / y \<le> b / c"
proof -
  have "0 < y" "0 < d" "0 \<le> x" using assms by linarith+
  then show ?thesis using assms by (simp add: frac_le)
qed

subsection \<open>A 16 MHz clock\<close>

text \<open>The timer tick \<^verbatim>\<open>1024.0/F_CPU\<close>, 64 microseconds, as the target computes it.\<close>

lemma tick_bounds:
  assumes "F_CPU p = 16000000" and "accurate (fround p)"
  shows "63999984 / 10 ^ 12 \<le> fdiv p 1024 (fround p (real (F_CPU p)))
       \<and> fdiv p 1024 (fround p (real (F_CPU p))) \<le> 64000016 / 10 ^ 12"
proof -
  define r where "r = fround p"
  have acc: "accurate r" using assms(2) by (simp add: r_def)
  have F: "15999998 \<le> r 16000000 \<and> r 16000000 \<le> 16000002"
    using accurate_bounds [OF acc, of 16000000 16000000 16000000] by simp
  have Q: "1024 / 16000002 \<le> 1024 / r 16000000 \<and> 1024 / r 16000000 \<le> 1024 / 15999998"
    using F quotient_bounds [of 1024 1024 1024 15999998 "r 16000000" 16000002] by simp
  have "1024 / 16000002 * (1 - 1 / 2 ^ 23) \<le> r (1024 / r 16000000)
      \<and> r (1024 / r 16000000) \<le> 1024 / 15999998 * (1 + 1 / 2 ^ 23)"
    using Q by (intro accurate_bounds [OF acc]) simp_all
  then show ?thesis by (simp add: fdiv_def assms(1) r_def)
qed

text \<open>The value \<^verbatim>\<open>temp\<close> for an interval between \<open>1000 a\<close> and \<open>1000 b\<close> milliseconds.\<close>

lemma temp_bounds:
  assumes clock: "F_CPU p = 16000000" and acc: "accurate (fround p)"
    and a: "1 / 1000 \<le> a" and ab: "a \<le> real (unat i) / 1000"
    and b: "real (unat i) / 1000 \<le> b" and b5: "b \<le> 5"
  shows "(a * (1 - 1 / 2 ^ 23) / (64000016 / 10 ^ 12) * (1 - 1 / 2 ^ 23) - 1) * (1 - 1 / 2 ^ 23)
          \<le> interval_temp p i
       \<and> interval_temp p i
          \<le> (b * (1 + 1 / 2 ^ 23) / (63999984 / 10 ^ 12) * (1 + 1 / 2 ^ 23) - 1) * (1 + 1 / 2 ^ 23)"
proof -
  define c where "c = fdiv p 1024 (fround p (real (F_CPU p)))"
  define e where "e = fround p (real (unat i) / 1000)"
  define t where "t = fround p (e / c)"
  have c: "63999984 / 10 ^ 12 \<le> c \<and> c \<le> 64000016 / 10 ^ 12"
    unfolding c_def by (rule tick_bounds [OF clock acc])
  have e: "a * (1 - 1 / 2 ^ 23) \<le> e \<and> e \<le> b * (1 + 1 / 2 ^ 23)"
    unfolding e_def using a ab b b5 by (intro accurate_bounds [OF acc]) simp_all
  have q: "a * (1 - 1 / 2 ^ 23) / (64000016 / 10 ^ 12) \<le> e / c
         \<and> e / c \<le> b * (1 + 1 / 2 ^ 23) / (63999984 / 10 ^ 12)"
    using e c a by (intro quotient_bounds) simp_all
  have t: "a * (1 - 1 / 2 ^ 23) / (64000016 / 10 ^ 12) * (1 - 1 / 2 ^ 23) \<le> t
         \<and> t \<le> b * (1 + 1 / 2 ^ 23) / (63999984 / 10 ^ 12) * (1 + 1 / 2 ^ 23)"
    unfolding t_def using q a b5 by (intro accurate_bounds [OF acc]) simp_all
  have "(a * (1 - 1 / 2 ^ 23) / (64000016 / 10 ^ 12) * (1 - 1 / 2 ^ 23) - 1) * (1 - 1 / 2 ^ 23)
          \<le> fround p (t - 1)
       \<and> fround p (t - 1)
          \<le> (b * (1 + 1 / 2 ^ 23) / (63999984 / 10 ^ 12) * (1 + 1 / 2 ^ 23) - 1) * (1 + 1 / 2 ^ 23)"
    using t a b5 by (intro accurate_bounds [OF acc]) simp_all
  then show ?thesis
    by (simp add: interval_temp_def fdiv_def fsub_def t_def e_def c_def Let_def)
qed

lemma to_uint16_floor:
  assumes "real_of_int k \<le> x" and "x < real_of_int k + 1" and "0 \<le> k" and "k < 65536"
  shows "to_uint16 x = Inr (word_of_int k)"
proof -
  have "\<lfloor>x\<rfloor> = k" using assms(1,2) by linarith
  moreover have "0 \<le> x" "x < 65536" using assms by linarith+
  ultimately show ?thesis by (simp add: to_uint16_def)
qed

text \<open>
  \<^verbatim>\<open>maximum\<close> is 4194 for any \<^verbatim>\<open>MAX_INTERVAL\<close> from 4.1941 to 4.1949 seconds: for the
  4.19424 of the source comment, and for 65535 or 65536 ticks computed anyhow.
\<close>

lemma maximum_16MHz:
  assumes "accurate (fround p)" and "4.1941 \<le> MAX_INTERVAL p" and "MAX_INTERVAL p \<le> 4.1949"
  shows "interval_maximum p = Inr 4194"
proof -
  have "4194.1 \<le> MAX_INTERVAL p * 1000" and "MAX_INTERVAL p * 1000 \<le> 4194.9"
    using assms(2,3) by simp_all
  then have "4194.1 * (1 - 1 / 2 ^ 23) \<le> fround p (MAX_INTERVAL p * 1000)
      \<and> fround p (MAX_INTERVAL p * 1000) \<le> 4194.9 * (1 + 1 / 2 ^ 23)"
    by (intro accurate_bounds [OF assms(1)]) simp_all
  then have "real_of_int 4194 \<le> fround p (MAX_INTERVAL p * 1000)"
    and "fround p (MAX_INTERVAL p * 1000) < real_of_int 4194 + 1"
    by simp_all
  then have "to_uint16 (fround p (MAX_INTERVAL p * 1000)) = Inr (word_of_int 4194)"
    by (rule to_uint16_floor) simp_all
  then show ?thesis by (simp add: interval_maximum_def fmul_def)
qed

lemma counter_16MHz_1:
  assumes "F_CPU p = 16000000" and "accurate (fround p)"
  shows "interval_counter p 1 = Inr 14"
proof -
  have "real_of_int 14 \<le> interval_temp p 1" and "interval_temp p 1 < real_of_int 14 + 1"
    using temp_bounds [OF assms, of "1 / 1000" 1 "1 / 1000"] by simp_all
  then have "to_uint16 (interval_temp p 1) = Inr (word_of_int 14)"
    by (rule to_uint16_floor) simp_all
  then show ?thesis by (simp add: interval_counter_def)
qed

lemma counter_16MHz_4194:
  assumes "F_CPU p = 16000000" and "accurate (fround p)"
  shows "interval_counter p 4194 = Inr 65530"
proof -
  have "real_of_int 65530 \<le> interval_temp p 4194"
    and "interval_temp p 4194 < real_of_int 65530 + 1"
    using temp_bounds [OF assms, of "4194 / 1000" 4194 "4194 / 1000"] by simp_all
  then have "to_uint16 (interval_temp p 4194) = Inr (word_of_int 65530)"
    by (rule to_uint16_floor) simp_all
  then show ?thesis by (simp add: interval_counter_def)
qed

lemma counter_16MHz_defined:
  assumes "F_CPU p = 16000000" and "accurate (fround p)" and "1 \<le> i" and "i \<le> 4194"
  shows "\<exists>counter. interval_counter p i = Inr counter"
proof -
  have "1 \<le> unat i" and "unat i \<le> 4194"
    using assms(3,4) by (simp_all add: word_le_nat_alt)
  then have "1 / 1000 \<le> real (unat i) / 1000" and "real (unat i) / 1000 \<le> 4194 / 1000"
    by linarith+
  from temp_bounds [OF assms(1,2) _ this]
  have "- 1 < interval_temp p i" and "interval_temp p i < 65536"
    by simp_all
  then show ?thesis by (simp add: interval_counter_def to_uint16_def)
qed

text \<open>
  4194 ms is the longest period at this clock: for 4195 ms the comparator value no
  longer fits 16 bits.
\<close>

lemma counter_16MHz_4195:
  assumes "F_CPU p = 16000000" and "accurate (fround p)"
  shows "interval_counter p 4195 = Inl ConversionOutOfRange"
proof -
  have "65536 \<le> interval_temp p 4195"
    using temp_bounds [OF assms, of "4195 / 1000" 4195 "4195 / 1000"] by simp
  then show ?thesis by (simp add: interval_counter_def to_uint16_def)
qed

text \<open>
  Where the exact value of \<^verbatim>\<open>temp\<close> is a whole number, the arithmetic decides the
  comparator value: 8 ms is 125 ticks, and the comparator value is 124 in exact
  arithmetic, 123 in one that rounds down.
\<close>

lemma comparator_depends_on_rounding:
  "interval_counter (avr16 2 exact) 8 = Inr 124 \<and>
   interval_counter (avr16 2 biased) 8 = Inr 123"
  by (simp add: interval_counter_def interval_temp_def avr16_def fdiv_def fsub_def
      to_uint16_def exact_def biased_def)

subsection \<open>The comparator value against the formula\<close>

text \<open>In exact arithmetic the code writes the value of the formula.\<close>

lemma comparator_exact:
  assumes "fround p = exact" and "0 \<le> spec_comparator p i" and "spec_comparator p i < 65536"
  shows "interval_counter p i = Inr (word_of_int (spec_comparator p i))"
proof -
  define V where "V = (real (unat i) / 1000) / (1024 / real (F_CPU p)) - 1"
  have temp: "interval_temp p i = V"
    by (simp add: interval_temp_def fdiv_def fsub_def assms(1) exact_def V_def)
  have fl: "spec_comparator p i = \<lfloor>V\<rfloor>"
    by (simp add: spec_comparator_def V_def)
  have "real_of_int (spec_comparator p i) \<le> V" and "V < real_of_int (spec_comparator p i) + 1"
    unfolding fl by linarith+
  then have "to_uint16 V = Inr (word_of_int (spec_comparator p i))"
    using assms(2,3) by (rule to_uint16_floor)
  then show ?thesis by (simp add: interval_counter_def temp)
qed

lemma spec_comparator_16MHz:
  assumes "F_CPU p = 16000000"
  shows "spec_comparator p i = int (125 * unat i div 8) - 1"
proof -
  have eq: "(real (unat i) / 1000) / (1024 / real (F_CPU p)) = real (125 * unat i) / real 8"
    by (simp add: assms)
  have "spec_comparator p i = \<lfloor>(real (unat i) / 1000) / (1024 / real (F_CPU p)) - 1\<rfloor>"
    by (simp only: spec_comparator_def)
  also have "\<dots> = \<lfloor>real (125 * unat i) / real 8 - 1\<rfloor>"
    by (simp only: eq)
  also have "\<dots> = \<lfloor>real (125 * unat i) / real 8\<rfloor> - 1"
    by linarith
  also have "\<lfloor>real (125 * unat i) / real 8\<rfloor> = int (125 * unat i div 8)"
    by (rule floor_divide_of_nat_eq)
  finally show ?thesis .
qed

lemma temp_16MHz_near:
  assumes "F_CPU p = 16000000" and "accurate (fround p)" and "1 \<le> i" and "i \<le> 4194"
  shows "125 * real (unat i) / 8 - 17 / 16 \<le> interval_temp p i
       \<and> interval_temp p i \<le> 125 * real (unat i) / 8 - 15 / 16"
proof -
  have "1 \<le> unat i" and "unat i \<le> 4194"
    using assms(3,4) by (simp_all add: word_le_nat_alt)
  then have n: "1 \<le> real (unat i)" "real (unat i) \<le> 4194"
    by linarith+
  then have "1 / 1000 \<le> real (unat i) / 1000" and "real (unat i) / 1000 \<le> 5"
    by linarith+
  from temp_bounds [OF assms(1,2) this(1) order_refl order_refl this(2)] n
  show ?thesis by (simp add: field_simps)
qed

text \<open>
  At 16 MHz, in any accurate arithmetic, the code writes the value of the formula for
  every period that is not a multiple of 8 ms, and that value or one less for a multiple
  of 8 ms, where the period is a whole number of ticks.
\<close>

lemma comparator_16MHz_accurate:
  assumes clock: "F_CPU p = 16000000" and acc: "accurate (fround p)"
    and lo: "1 \<le> i" and hi: "i \<le> 4194"
  shows "(\<not> 8 dvd unat i \<longrightarrow>
            interval_counter p i = Inr (word_of_int (spec_comparator p i))) \<and>
         (interval_counter p i = Inr (word_of_int (spec_comparator p i)) \<or>
          interval_counter p i = Inr (word_of_int (spec_comparator p i - 1)))"
proof -
  define n where "n = unat i"
  define k where "k = 125 * n div 8"
  define m where "m = 125 * n mod 8"
  have n: "1 \<le> n" "n \<le> 4194"
    using lo hi by (simp_all add: n_def word_le_nat_alt)
  have split: "125 * n = 8 * k + m" and m7: "m \<le> 7"
    by (simp_all add: k_def m_def)
  have k: "15 \<le> k" "k \<le> 65531"
    using n by (simp_all add: k_def)
  have W: "125 * real (unat i) / 8 = real k + real m / 8"
  proof -
    have "real (125 * n) = real (8 * k + m)" by (simp only: split)
    then have "125 * real n = 8 * real k + real m" by simp
    then show ?thesis unfolding n_def by linarith
  qed
  have spec: "spec_comparator p i = int k - 1"
    using spec_comparator_16MHz [OF clock, of i] by (simp add: k_def n_def)
  have near: "real k + real m / 8 - 17 / 16 \<le> interval_temp p i"
    "interval_temp p i \<le> real k + real m / 8 - 15 / 16"
    using temp_16MHz_near [OF clock acc lo hi] W by linarith+
  have "coprime (2 ^ 3 :: nat) 125"
    by (simp only: coprime_power_left_iff coprime_left_2_iff_odd) simp
  then have "coprime (8 :: nat) 125" by simp
  then have "8 dvd 125 * n \<longleftrightarrow> 8 dvd n"
    by (rule coprime_dvd_mult_right_iff)
  then have dvd: "8 dvd n \<longleftrightarrow> m = 0"
    by (simp add: m_def mod_eq_0_iff_dvd)
  have off: "interval_counter p i = Inr (word_of_int (int k - 1))" if "m \<noteq> 0"
  proof -
    have "1 \<le> real m" "real m \<le> 7" using that m7 by simp_all
    then have "real_of_int (int k - 1) \<le> interval_temp p i"
      and "interval_temp p i < real_of_int (int k - 1) + 1"
      using near by simp_all
    then have "to_uint16 (interval_temp p i) = Inr (word_of_int (int k - 1))"
      using k by (intro to_uint16_floor) simp_all
    then show ?thesis by (simp add: interval_counter_def)
  qed
  have on: "interval_counter p i = Inr (word_of_int (int k - 1)) \<or>
            interval_counter p i = Inr (word_of_int (int k - 1 - 1))" if "m = 0"
  proof (cases "real_of_int (int k - 1) \<le> interval_temp p i")
    case True
    moreover have "interval_temp p i < real_of_int (int k - 1) + 1"
      using near that by simp
    ultimately have "to_uint16 (interval_temp p i) = Inr (word_of_int (int k - 1))"
      using k by (intro to_uint16_floor) simp_all
    then show ?thesis by (simp add: interval_counter_def)
  next
    case False
    then have "interval_temp p i < real_of_int (int k - 1 - 1) + 1" by simp
    moreover have "real_of_int (int k - 1 - 1) \<le> interval_temp p i"
      using near that by simp
    ultimately have "to_uint16 (interval_temp p i) = Inr (word_of_int (int k - 1 - 1))"
      using k by (intro to_uint16_floor) simp_all
    then show ?thesis by (simp add: interval_counter_def)
  qed
  show ?thesis
    using off on dvd by (auto simp add: spec n_def)
qed

lemma scale_round_numeral:
  "scale_round (numeral k) x =
    (if 2 ^ 24 \<le> x then 2 * scale_round (pred_numeral k) (x / 2)
     else if x < 2 ^ 23 then scale_round (pred_numeral k) (2 * x) / 2
     else of_int (round_even x))"
  by (simp add: numeral_eq_Suc)

text \<open>
  C4: the comparator value that setTimerInterval writes is the round-down of
  (period / tick period) - 1. The code misses it in single precision: at 16 MHz a period
  of 520 ms is exactly 8125 ticks, the formula gives 8124, and the code writes 8123,
  because the quotient computed comes out just below 8125.
\<close>

theorem comparator_520_single:
  "setTimerInterval (avr16 2 single) 0 520 mcu0 =
     Inr (520, sei (mcu0\<lparr>OCRA := (OCRA mcu0)(1 := 8123)\<rparr>)) \<and>
   spec_comparator (avr16 2 single) 520 = 8124"
  by (simp add: setTimerInterval_def interval_maximum_def interval_counter_def
      interval_temp_def spec_comparator_def avr16_def fdiv_def fsub_def fmul_def
      to_uint16_def constrain_def cli_def sei_def mcu0_def single_def scale_round_numeral
      round_even_def)

subsection \<open>Clamping\<close>

lemma word16_ge_1: "(x :: 16 word) \<noteq> 0 \<Longrightarrow> 1 \<le> x"
  by (simp add: word_le_nat_alt unat_gt_0 Suc_leI)

lemma constrain_range:
  "1 \<le> maximum \<Longrightarrow> 1 \<le> constrain msec 1 maximum \<and> constrain msec 1 maximum \<le> maximum"
  by (auto simp add: constrain_def not_less word16_ge_1)

lemma setTimerInterval_result:
  assumes "interval_maximum p = Inr maximum"
    and "interval_counter p (constrain msec 1 maximum) = Inr counter"
  shows "\<exists>s'. setTimerInterval p c msec s = Inr (constrain msec 1 maximum, s')"
  using assms by (simp add: setTimerInterval_def Let_def)

text \<open>
  C3: where the conversions of setTimerInterval are defined and \<^verbatim>\<open>maximum\<close> is at least 1,
  the call returns the requested period clamped to \<open>[1, maximum]\<close>: \<open>maximum\<close> for a
  request above it, 1 for a request below 1, the request itself otherwise. What it
  returns is this period, whatever the comparator value.
\<close>

theorem setTimerInterval_clamps:
  assumes "interval_maximum p = Inr maximum" and "1 \<le> maximum"
    and "interval_counter p (constrain msec 1 maximum) = Inr counter"
  shows "(\<exists>s'. setTimerInterval p c msec s = Inr (constrain msec 1 maximum, s')) \<and>
         1 \<le> constrain msec 1 maximum \<and> constrain msec 1 maximum \<le> maximum \<and>
         (maximum < msec \<longrightarrow> constrain msec 1 maximum = maximum) \<and>
         (msec < 1 \<longrightarrow> constrain msec 1 maximum = 1) \<and>
         (1 \<le> msec \<and> msec \<le> maximum \<longrightarrow> constrain msec 1 maximum = msec)"
  using setTimerInterval_result [OF assms(1,3)] constrain_range [OF assms(2)] assms(2)
  by (auto simp add: constrain_def)

theorem setTimerInterval_clamps_witness:
  "interval_maximum (avr16 2 exact) = Inr 4194 \<and> (1 :: 16 word) \<le> 4194 \<and>
   interval_counter (avr16 2 exact) (constrain 0 1 4194) = Inr 14 \<and>
   interval_counter (avr16 2 exact) (constrain 5000 1 4194) = Inr 65530 \<and>
   setTimerInterval (avr16 2 exact) 0 0 mcu0 =
     Inr (1, sei (mcu0\<lparr>OCRA := (OCRA mcu0)(1 := 14)\<rparr>)) \<and>
   setTimerInterval (avr16 2 exact) 0 5000 mcu0 =
     Inr (4194, sei (mcu0\<lparr>OCRA := (OCRA mcu0)(1 := 65530)\<rparr>)) \<and>
   (0 :: 16 word) < 1 \<and> constrain 0 1 4194 = (1 :: 16 word) \<and>
   (4194 :: 16 word) < 5000 \<and> constrain 5000 1 4194 = (4194 :: 16 word)"
  using setTimerInterval_clamps [of "avr16 2 exact" 4194 0 14 0 mcu0]
    setTimerInterval_clamps [of "avr16 2 exact" 4194 5000 65530 0 mcu0]
  by (simp add: setTimerInterval_def interval_maximum_def interval_counter_def
      interval_temp_def avr16_def fdiv_def fsub_def fmul_def to_uint16_def constrain_def
      cli_def sei_def mcu0_def exact_def)

text \<open>
  At 16 MHz the conversions are defined for every request, in any accurate arithmetic:
  setTimerInterval always returns, and what it returns is the request clamped to
  \<open>[1, 4194]\<close>.
\<close>

lemma setTimerInterval_16MHz_returns:
  assumes "F_CPU p = 16000000" and "accurate (fround p)"
    and "4.1941 \<le> MAX_INTERVAL p" and "MAX_INTERVAL p \<le> 4.1949"
  shows "\<exists>s'. setTimerInterval p c msec s = Inr (constrain msec 1 4194, s')"
proof -
  have "1 \<le> constrain msec 1 4194 \<and> constrain msec 1 4194 \<le> 4194"
    by (rule constrain_range) simp
  then obtain counter where "interval_counter p (constrain msec 1 4194) = Inr counter"
    using counter_16MHz_defined [OF assms(1,2), of "constrain msec 1 4194"] by blast
  with maximum_16MHz [OF assms(2-4)] show ?thesis by (rule setTimerInterval_result)
qed

text \<open>
  C5, as the code has it: at 16 MHz with the prescaler 1024, in any accurate arithmetic
  and with \<^verbatim>\<open>MAX_INTERVAL\<close> about 4.194 s, a request of 1 ms writes the comparator value
  14 and returns 1; a request of 4194 ms writes 65530 and returns 4194; a request of
  5000 ms is clamped to 4194 ms (and writes 65530).
\<close>

theorem scenario_16MHz:
  assumes "F_CPU p = 16000000" and "accurate (fround p)"
    and "4.1941 \<le> MAX_INTERVAL p" and "MAX_INTERVAL p \<le> 4.1949"
  shows "setTimerInterval p 0 1 s =
           Inr (1, sei ((cli s)\<lparr>OCRA := (OCRA s)(1 := 14)\<rparr>)) \<and>
         setTimerInterval p 0 4194 s =
           Inr (4194, sei ((cli s)\<lparr>OCRA := (OCRA s)(1 := 65530)\<rparr>)) \<and>
         setTimerInterval p 0 5000 s =
           Inr (4194, sei ((cli s)\<lparr>OCRA := (OCRA s)(1 := 65530)\<rparr>))"
  using maximum_16MHz [OF assms(2-4)] counter_16MHz_1 [OF assms(1,2)]
    counter_16MHz_4194 [OF assms(1,2)]
  by (simp add: setTimerInterval_def constrain_def cli_def Let_def)

theorem scenario_16MHz_witness:
  "F_CPU (avr16 2 biased) = 16000000 \<and> accurate (fround (avr16 2 biased)) \<and>
   4.1941 \<le> MAX_INTERVAL (avr16 2 biased) \<and> MAX_INTERVAL (avr16 2 biased) \<le> 4.1949 \<and>
   setTimerInterval (avr16 2 biased) 0 1 mcu0 =
     Inr (1, sei ((cli mcu0)\<lparr>OCRA := (OCRA mcu0)(1 := 14)\<rparr>)) \<and>
   setTimerInterval (avr16 2 biased) 0 4194 mcu0 =
     Inr (4194, sei ((cli mcu0)\<lparr>OCRA := (OCRA mcu0)(1 := 65530)\<rparr>)) \<and>
   setTimerInterval (avr16 2 biased) 0 5000 mcu0 =
     Inr (4194, sei ((cli mcu0)\<lparr>OCRA := (OCRA mcu0)(1 := 65530)\<rparr>))"
  using scenario_16MHz [of "avr16 2 biased" mcu0] accurate_biased
  by (simp add: avr16_def)

text \<open>
  C5 fails in one number: for 4194 ms the comparator value is 65530, not 65534
  (\<open>4.194 / 0.000064 - 1 = 65530.25\<close>).
\<close>

theorem comparator_4194_counterexample:
  "setTimerInterval (avr16 2 exact) 0 4194 mcu0 =
     Inr (4194, sei (mcu0\<lparr>OCRA := (OCRA mcu0)(1 := 65530)\<rparr>)) \<and>
   setTimerInterval (avr16 2 exact) 0 4194 mcu0 \<noteq>
     Inr (4194, sei (mcu0\<lparr>OCRA := (OCRA mcu0)(1 := 65534)\<rparr>))"
proof -
  have run: "setTimerInterval (avr16 2 exact) 0 4194 mcu0 =
     Inr (4194, sei (mcu0\<lparr>OCRA := (OCRA mcu0)(1 := 65530)\<rparr>))"
    by (simp add: setTimerInterval_def interval_maximum_def interval_counter_def
      interval_temp_def avr16_def fdiv_def fsub_def fmul_def to_uint16_def constrain_def
      cli_def sei_def mcu0_def exact_def)
  have "OCRA (sei (mcu0\<lparr>OCRA := (OCRA mcu0)(1 := 65530)\<rparr>)) 1
      \<noteq> OCRA (sei (mcu0\<lparr>OCRA := (OCRA mcu0)(1 := 65534)\<rparr>)) 1"
    by (simp add: sei_def)
  then have "sei (mcu0\<lparr>OCRA := (OCRA mcu0)(1 := 65530)\<rparr>)
      \<noteq> sei (mcu0\<lparr>OCRA := (OCRA mcu0)(1 := 65534)\<rparr>)"
    by metis
  with run show ?thesis by simp
qed

section \<open>Interrupt dispatch\<close>

lemma handler_null: "AVRCommonHandler p run None w = Inl NullObject"
  by (simp add: AVRCommonHandler_def)

lemma handler_idle:
  "\<not> repeating (objects w a) \<Longrightarrow> \<not> oneshot (objects w a) \<Longrightarrow>
     AVRCommonHandler p run (Some a) w = Inr ([], w)"
  by (simp add: AVRCommonHandler_def)

lemma handler_oneshot:
  "oneshot (objects w a) \<Longrightarrow> callback (objects w a) = Some f \<Longrightarrow>
   oneshot (objects (run f (callbackArg (objects w a)) w) a) \<Longrightarrow>
     AVRCommonHandler p run (Some a) w =
       Inr ([(f, callbackArg (objects w a))],
            disarm p a
              ((run f (callbackArg (objects w a)) w)
                 \<lparr>objects := (objects (run f (callbackArg (objects w a)) w))
                    (a := (objects (run f (callbackArg (objects w a)) w) a)\<lparr>oneshot := False\<rparr>)\<rparr>))"
  by (simp add: AVRCommonHandler_def)

text \<open>
  C1 fails: with a null table entry the routine does not return. The entry goes to the
  common handler unchecked, and the handler's first statement reads through it.
\<close>

theorem ISR_null_entry_counterexample:
  "AVRTimerTable (example_system None (example_timer True False (Some 42)))
     (table_index TIMER1_COMPA_vect) = None \<and>
   ISR (avr16 1 exact) run_skip TIMER1_COMPA_vect
     (example_system None (example_timer True False (Some 42))) = Inl NullObject \<and>
   ISR (avr16 1 exact) run_skip TIMER1_COMPA_vect
     (example_system None (example_timer True False (Some 42)))
     \<noteq> Inr ([], example_system None (example_timer True False (Some 42)))"
  by (simp add: ISR_def AVRCommonHandler_def example_system_def)

text \<open>
  C1, as the code has it: for every vector, a null table entry makes the routine fault
  on the null object, before any callback is called or anything is written. It returns
  with no call and the system unchanged when the entry is an object of neither mode.
\<close>

theorem ISR_null_entry:
  "(AVRTimerTable w (table_index v) = None \<longrightarrow> ISR p run v w = Inl NullObject) \<and>
   (\<forall>a. AVRTimerTable w (table_index v) = Some a \<and>
        \<not> repeating (objects w a) \<and> \<not> oneshot (objects w a) \<longrightarrow>
        ISR p run v w = Inr ([], w))"
  by (simp add: ISR_def handler_null handler_idle)

theorem ISR_null_entry_witness:
  "AVRTimerTable (example_system None (example_timer True False (Some 42)))
     (table_index TIMER1_COMPA_vect) = None \<and>
   ISR (avr16 1 exact) run_skip TIMER1_COMPA_vect
     (example_system None (example_timer True False (Some 42))) = Inl NullObject \<and>
   AVRTimerTable (example_system (Some 7) (example_timer False False (Some 42)))
     (table_index TIMER1_COMPA_vect) = Some 7 \<and>
   \<not> repeating (objects (example_system (Some 7) (example_timer False False (Some 42))) 7) \<and>
   \<not> oneshot (objects (example_system (Some 7) (example_timer False False (Some 42))) 7) \<and>
   ISR (avr16 1 exact) run_skip TIMER1_COMPA_vect
     (example_system (Some 7) (example_timer False False (Some 42)))
     = Inr ([], example_system (Some 7) (example_timer False False (Some 42)))"
  using ISR_null_entry [of "example_system None (example_timer True False (Some 42))"
      TIMER1_COMPA_vect "avr16 1 exact" run_skip]
    ISR_null_entry [of "example_system (Some 7) (example_timer False False (Some 42))"
      TIMER1_COMPA_vect "avr16 1 exact" run_skip]
  by (simp add: example_system_def example_timer_def)

text \<open>
  C2 fails: a registered repeating timer without a callback does not make the fire a
  silent no-op. The handler calls through the null function pointer.
\<close>

theorem null_callback_counterexample:
  "AVRTimerTable (example_system (Some 7) (example_timer True False None))
     (table_index TIMER1_COMPA_vect) = Some 7 \<and>
   callback (objects (example_system (Some 7) (example_timer True False None)) 7) = None \<and>
   ISR (avr16 1 exact) run_skip TIMER1_COMPA_vect
     (example_system (Some 7) (example_timer True False None)) = Inl NullCallback \<and>
   ISR (avr16 1 exact) run_skip TIMER1_COMPA_vect
     (example_system (Some 7) (example_timer True False None))
     \<noteq> Inr ([], example_system (Some 7) (example_timer True False None))"
  by (simp add: ISR_def AVRCommonHandler_def example_system_def example_timer_def)

text \<open>
  C2, as the code has it: when the interrupt of a registered object fires and its
  callback is null, nothing is called and nothing changes if its mode is neither
  repeating nor one-shot; if its mode is repeating or one-shot the handler calls through
  the null pointer, which is a fault.
\<close>

theorem null_callback_fire:
  assumes "AVRTimerTable w (table_index v) = Some a" and "callback (objects w a) = None"
  shows "ISR p run v w =
          (if repeating (objects w a) \<or> oneshot (objects w a) then Inl NullCallback
           else Inr ([], w))"
  using assms by (simp add: ISR_def AVRCommonHandler_def)

theorem null_callback_fire_witness:
  "AVRTimerTable (example_system (Some 7) (example_timer False False None))
     (table_index TIMER1_COMPA_vect) = Some 7 \<and>
   callback (objects (example_system (Some 7) (example_timer False False None)) 7) = None \<and>
   ISR (avr16 1 exact) run_skip TIMER1_COMPA_vect
     (example_system (Some 7) (example_timer False False None))
     = Inr ([], example_system (Some 7) (example_timer False False None)) \<and>
   AVRTimerTable (example_system (Some 7) (example_timer True False None))
     (table_index TIMER1_COMPA_vect) = Some 7 \<and>
   callback (objects (example_system (Some 7) (example_timer True False None)) 7) = None \<and>
   ISR (avr16 1 exact) run_skip TIMER1_COMPA_vect
     (example_system (Some 7) (example_timer True False None)) = Inl NullCallback"
  using null_callback_fire [of "example_system (Some 7) (example_timer False False None)"
      TIMER1_COMPA_vect 7 "avr16 1 exact" run_skip]
    null_callback_fire [of "example_system (Some 7) (example_timer True False None)"
      TIMER1_COMPA_vect 7 "avr16 1 exact" run_skip]
  by (simp add: example_system_def example_timer_def)

text \<open>
  C6 fails for a one-shot timer whose callback is null: the handler faults at the call,
  so it neither clears the flag nor disarms.
\<close>

theorem oneshot_fire_counterexample:
  "oneshot (objects (example_system (Some 7) (example_timer False True None)) 7) \<and>
   AVRCommonHandler (avr16 1 exact) run_skip (Some 7)
     (example_system (Some 7) (example_timer False True None)) = Inl NullCallback"
  by (simp add: AVRCommonHandler_def example_system_def example_timer_def)

text \<open>
  C6, as the code has it: for a one-shot object with a callback, whose call returns with
  the object's one-shot flag still set, the handler makes exactly that one call, then
  clears the flag and disarms the object: afterwards the flag and the armed state are
  off, the table entry of its channel is null and its timer has been stopped. An object
  of neither mode gets no call, and nothing changes.
\<close>

theorem oneshot_fire:
  "(oneshot (objects w a) \<and> callback (objects w a) = Some f \<and>
    oneshot (objects (run f (callbackArg (objects w a)) w) a) \<longrightarrow>
      (let w1 = run f (callbackArg (objects w a)) w;
           w2 = w1\<lparr>objects := (objects w1)(a := (objects w1 a)\<lparr>oneshot := False\<rparr>)\<rparr>;
           w' = disarm p a w2
       in AVRCommonHandler p run (Some a) w = Inr ([(f, callbackArg (objects w a))], w') \<and>
          \<not> oneshot (objects w' a) \<and> \<not> armed (objects w' a) \<and>
          AVRTimerTable w' (unat (channel (objects w1 a))) = None \<and>
          hw w' = stopTimer p (channel (objects w1 a)) True (hw w1))) \<and>
   (\<not> repeating (objects w a) \<and> \<not> oneshot (objects w a) \<longrightarrow>
      AVRCommonHandler p run (Some a) w = Inr ([], w))"
  by (simp add: handler_oneshot handler_idle disarm_def Let_def)

theorem oneshot_fire_witness:
  "oneshot (objects (example_system (Some 7) (example_timer False True (Some 42))) 7) \<and>
   callback (objects (example_system (Some 7) (example_timer False True (Some 42))) 7) = Some 42 \<and>
   oneshot (objects (run_skip 42 5 (example_system (Some 7) (example_timer False True (Some 42)))) 7) \<and>
   AVRCommonHandler (avr16 1 exact) run_skip (Some 7)
       (example_system (Some 7) (example_timer False True (Some 42)))
     = Inr ([(42, 5)],
         \<lparr>hw = sei mcu0,
          AVRTimerTable = (\<lambda>_. None),
          objects = (\<lambda>_. example_timer False True (Some 42))
                     (7 := (example_timer False False (Some 42))\<lparr>armed := False\<rparr>)\<rparr>) \<and>
   \<not> repeating (objects (example_system (Some 7) (example_timer False False (Some 42))) 7) \<and>
   \<not> oneshot (objects (example_system (Some 7) (example_timer False False (Some 42))) 7) \<and>
   AVRCommonHandler (avr16 1 exact) run_skip (Some 7)
       (example_system (Some 7) (example_timer False False (Some 42)))
     = Inr ([], example_system (Some 7) (example_timer False False (Some 42)))"
  using oneshot_fire [of "example_system (Some 7) (example_timer False True (Some 42))" 7 42
      run_skip "avr16 1 exact"]
    oneshot_fire [of "example_system (Some 7) (example_timer False False (Some 42))" 7 42
      run_skip "avr16 1 exact"]
  by (simp add: example_system_def example_timer_def run_skip_def Let_def disarm_def
      stopTimer_def startTimer_def cli_def sei_def mcu0_def fun_eq_iff)

end
